theory Spec2Isabelle
  imports Main "HOL-Library.Word"
begin

unbundle bit_operations_syntax

section \<open>Python values shared by both scripts\<close>

text \<open>
  The exceptions the two scripts can let escape. An escaping exception ends the
  interpreter with a traceback.
\<close>

datatype py_error = OSError | PermissionError | CalledProcessError | IndexError | URLError

type_synonym bytes = "8 word list"

text \<open>
  \<^verbatim>\<open>s.split(sep)\<close> for a separator of one character: every occurrence of the
  separator ends a field, empty fields are kept, and the empty string gives one
  empty field.
\<close>

fun split_on :: "char \<Rightarrow> string \<Rightarrow> string list" where
  "split_on sep [] = [[]]"
| "split_on sep (c # cs) =
     (if c = sep then [] # split_on sep cs
      else (case split_on sep cs of
              [] \<Rightarrow> [[c]]
            | w # ws \<Rightarrow> (c # w) # ws))"

text \<open>\<^verbatim>\<open>xs[1]\<close>: the second element, IndexError when there is none.\<close>

definition index1 :: "'a list \<Rightarrow> py_error + 'a" where
  "index1 xs = (case xs of _ # y # _ \<Rightarrow> Inr y | _ \<Rightarrow> Inl IndexError)"

section \<open>bootstrap.py\<close>

subsection \<open>The release descriptor\<close>

definition WAFRELEASE :: string where
  "WAFRELEASE = ''waf-1.8.1''"

definition WAFURL :: string where
  "WAFURL = ''http://ftp.waf.io/pub/release/'' @ WAFRELEASE"

definition SHA256HASH :: string where
  "SHA256HASH = ''ec658116ba0b96629d91fde0b32321849e866e0819f1e835c4c2c7f7ffe1a21d''"

definition S_IXUSR :: int where
  "S_IXUSR = 64"

text \<open>The set-user-ID and set-group-ID bits of a mode word, 0o4000 and 0o2000.\<close>

definition S_ISUID :: int where
  "S_ISUID = 2048"

definition S_ISGID :: int where
  "S_ISGID = 1024"

subsection \<open>The world the script runs in\<close>

text \<open>
  A file of the current directory has its bytes, its mode word (file type, special
  bits and the nine permission bits), its owner and its group. The world holds the
  directory, the lines printed so far and the URLs opened so far.
\<close>

record regfile =
  content :: bytes
  st_mode :: int
  st_uid :: nat
  st_gid :: nat

type_synonym directory = "string \<rightharpoonup> regfile"

record world =
  files :: directory
  stdout :: "string list"
  requests :: "string list"

text \<open>
  What the script asks of its surroundings: the decoded output of a child process
  (or the exception that \<^verbatim>\<open>check_output\<close> raises), the body behind a URL (or the
  exception of \<^verbatim>\<open>urlopen\<close>), the hexadecimal SHA-256 digest; the effective user of
  the process and the groups it is in, whether it may create an entry in the current
  directory, the mode and the group that a file it creates gets; and which of the
  set-ID bits the operating system takes away when the file is written and when its
  mode is changed (POSIX leaves both to the implementation).
\<close>

record bootenv =
  check_output :: "directory \<Rightarrow> string list \<Rightarrow> py_error + string"
  urlopen_read :: "string \<Rightarrow> py_error + bytes"
  sha256_hexdigest :: "bytes \<Rightarrow> string"
  euid :: nat
  groups :: "nat list"
  cwd_writable :: bool
  create_mode :: int
  create_gid :: nat
  write_clears :: "regfile \<Rightarrow> int"
  chmod_clears :: "regfile \<Rightarrow> int"

text \<open>How the interpreter ends: \<^verbatim>\<open>sys.exit(n)\<close> or the end of the script (status 0),
  or an exception nobody caught.\<close>

datatype status = Exit nat | Traceback py_error

definition print :: "string \<Rightarrow> world \<Rightarrow> world" where
  "print s w = w\<lparr>stdout := stdout w @ [s]\<rparr>"

text \<open>
  The POSIX test for write access to a file: the superuser passes; the owner needs
  the owner-write bit (bit 7), a member of the file's group the group-write bit
  (bit 4), anyone else the other-write bit (bit 1).
\<close>

definition may_write :: "bootenv \<Rightarrow> regfile \<Rightarrow> bool" where
  "may_write e f =
     (if euid e = 0 then True
      else if euid e = st_uid f then bit (st_mode f) 7
      else if st_gid f \<in> set (groups e) then bit (st_mode f) 4
      else bit (st_mode f) 1)"

text \<open>Only the superuser and the owner may change a file's mode.\<close>

definition may_chmod :: "bootenv \<Rightarrow> regfile \<Rightarrow> bool" where
  "may_chmod e f = (euid e = 0 \<or> euid e = st_uid f)"

text \<open>
  \<^verbatim>\<open>with open(name, "wb") as wf: wf.write(data)\<close>. Opening raises PermissionError
  (IOError in Python 2) and leaves everything as it was when the file exists and the
  process may not write it, or does not exist and the directory takes no new entry.
  Otherwise an existing file loses its old bytes and keeps its owner, group and mode,
  except that the system may clear set-user-ID and set-group-ID; a new file belongs to
  the process and has the creation mode.
\<close>

definition open_wb_write :: "bootenv \<Rightarrow> string \<Rightarrow> bytes \<Rightarrow> world \<Rightarrow> py_error + world" where
  "open_wb_write e name data w =
     (case files w name of
        None \<Rightarrow>
          if cwd_writable e then
            Inr (w\<lparr>files := (files w)(name \<mapsto>
                   \<lparr>content = data, st_mode = create_mode e,
                    st_uid = euid e, st_gid = create_gid e\<rparr>)\<rparr>)
          else Inl PermissionError
      | Some f \<Rightarrow>
          if may_write e f then
            Inr (w\<lparr>files := (files w)(name \<mapsto>
                   f\<lparr>content := data,
                     st_mode := st_mode f AND NOT (write_clears e f AND (S_ISUID OR S_ISGID))\<rparr>)\<rparr>)
          else Inl PermissionError)"

definition os_stat :: "world \<Rightarrow> string \<Rightarrow> py_error + int" where
  "os_stat w name = (case files w name of None \<Rightarrow> Inl OSError | Some f \<Rightarrow> Inr (st_mode f))"

text \<open>
  \<^verbatim>\<open>os.chmod(name, m)\<close>: the twelve low bits of the mode word become those of \<^verbatim>\<open>m\<close>,
  the file type above them stays, and the system may clear set-group-ID. It raises
  when the file is missing or the process may not change its mode.
\<close>

definition os_chmod :: "bootenv \<Rightarrow> string \<Rightarrow> int \<Rightarrow> world \<Rightarrow> py_error + world" where
  "os_chmod e name m w =
     (case files w name of
        None \<Rightarrow> Inl OSError
      | Some f \<Rightarrow>
          if may_chmod e f then
            Inr (w\<lparr>files := (files w)(name \<mapsto>
                   f\<lparr>st_mode := ((st_mode f AND NOT (mask 12)) OR (m AND mask 12))
                                   AND NOT (chmod_clears e f AND S_ISGID)\<rparr>)\<rparr>)
          else Inl PermissionError)"

subsection \<open>Lines 12 to 16: an installed waf of the pinned version\<close>

text \<open>The result is whether the script stops here with status 0.\<close>

definition version_check :: "bootenv \<Rightarrow> world \<Rightarrow> py_error + bool" where
  "version_check e w =
     (if ''waf'' \<in> dom (files w) then
        (case check_output e (files w) [''./waf'', ''--version''] of
           Inl x \<Rightarrow> Inl x
         | Inr wafver \<Rightarrow>
             (case index1 (split_on CHR ''-'' WAFRELEASE) of
                Inl x \<Rightarrow> Inl x
              | Inr pinned \<Rightarrow>
                  (case index1 (split_on CHR '' '' wafver) of
                     Inl x \<Rightarrow> Inl x
                   | Inr reported \<Rightarrow> Inr (pinned = reported))))
      else Inr False)"

subsection \<open>Lines 23 to 38: download, verify, install\<close>

definition install :: "bootenv \<Rightarrow> bytes \<Rightarrow> world \<Rightarrow> status \<times> world" where
  "install e waf w =
     (case open_wb_write e ''waf'' waf w of
        Inl x \<Rightarrow> (Traceback x, w)
      | Inr w1 \<Rightarrow>
          (case os_stat w1 ''waf'' of
             Inl x \<Rightarrow> (Traceback x, w1)
           | Inr m \<Rightarrow>
               (case os_chmod e ''waf'' (m OR S_IXUSR) w1 of
                  Inl x \<Rightarrow> (Traceback x, w1)
                | Inr w2 \<Rightarrow> (Exit 0, print ''Checksum verified.'' w2))))"

definition reject :: "bootenv \<Rightarrow> bytes \<Rightarrow> world \<Rightarrow> status \<times> world" where
  "reject e waf w =
     (Exit 1,
      print ''Please download and verify the file manually.''
        (print ('' - expected: '' @ SHA256HASH)
          (print ('' - got:      '' @ sha256_hexdigest e waf)
            (print ''The checksum of the downloaded file does not match!'' w))))"

definition download_verify :: "bootenv \<Rightarrow> world \<Rightarrow> status \<times> world" where
  "download_verify e w =
     (let w1 = (print (''Downloading '' @ WAFURL @ ''...'') w)\<lparr>requests := requests w @ [WAFURL]\<rparr> in
      case urlopen_read e WAFURL of
        Inl x \<Rightarrow> (Traceback x, w1)
      | Inr waf \<Rightarrow>
          (if SHA256HASH = sha256_hexdigest e waf then install e waf w1
           else reject e waf w1))"

definition bootstrap :: "bootenv \<Rightarrow> world \<Rightarrow> status \<times> world" where
  "bootstrap e w =
     (case version_check e w of
        Inl x \<Rightarrow> (Traceback x, w)
      | Inr True \<Rightarrow> (Exit 0, print (''Found '' @ [CHR 0x27] @ ''waf'' @ [CHR 0x27] @ '', skipping download.'') w)
      | Inr False \<Rightarrow> download_verify e w)"

section \<open>waftools/checks/custom.py\<close>

subsection \<open>The build context and the host\<close>

text \<open>
  The keyword arguments of a call of \<^verbatim>\<open>check_cc\<close>. Every probe of this file passes
  \<^verbatim>\<open>fragment\<close>; each of the other keywords is either passed with a value or left out
  (None).
\<close>

record cc_kwargs =
  fragment :: string
  cflags :: "string option"
  lib :: "string option"
  use :: "string list option"
  execute :: "bool option"
  header_name :: "string option"
  defines_kw :: "string list option"

text \<open>The call that leaves every keyword out.\<close>

definition cc_defaults :: cc_kwargs where
  "cc_defaults =
     \<lparr>fragment = [], cflags = None, lib = None, use = None, execute = None,
      header_name = None, defines_kw = None\<rparr>"

text \<open>What a probe asked of the toolchain: one compile (link, run) request or one
  pkg-config query with the store it would fill.\<close>

datatype attempt = Compile cc_kwargs | PkgConfig string string

text \<open>
  The build context: the fields of \<^verbatim>\<open>ctx.env\<close> and \<^verbatim>\<open>ctx.options\<close> that the probes
  read, the dependencies marked satisfied, the optional messages, the preprocessor
  defines, and the log of the attempts made through it, oldest first.
\<close>

record ctx =
  DEST_OS :: string
  LIB_LIBDL :: "string list"
  LUA_VER :: "string option"
  satisfied_deps :: "string set"
  optional_messages :: "string \<rightharpoonup> string"
  DEFINES :: "string \<rightharpoonup> string"
  attempts :: "attempt list"

text \<open>
  The host the configuration runs on: the fragment files, \<^verbatim>\<open>str.format\<close> with the two
  named fields of the Lua fragment, whether the toolchain compiles (links, runs) a
  request, whether pkg-config resolves a query, what the shell prints for
  \<^verbatim>\<open>. /etc/oss.conf && echo $OSSLIBDIR\<close>, and the define key that
  \<^verbatim>\<open>DependencyInflector\<close> derives from a dependency identifier.
\<close>

record host =
  load_fragment :: "string \<Rightarrow> string"
  str_format :: "string \<Rightarrow> string \<Rightarrow> string \<Rightarrow> string"
  cc_works :: "cc_kwargs \<Rightarrow> bool"
  pkg_resolves :: "string \<Rightarrow> bool"
  sh_stdout :: string
  define_key :: "string \<Rightarrow> string"

text \<open>A probe \<^verbatim>\<open>fn(ctx, dependency_identifier)\<close> returns found or not and leaves the
  context changed. A probe built by a primitive also accepts the keyword \<^verbatim>\<open>lib\<close>.\<close>

type_synonym probe = "ctx \<Rightarrow> string \<Rightarrow> bool \<times> ctx"

type_synonym kwprobe = "string option \<Rightarrow> probe"

subsection \<open>The primitives of waftools/checks/generic.py\<close>

text \<open>
  Modelled from the spec: \<^verbatim>\<open>check_cc\<close> of waftools/checks/generic.py, which is not among
  the sources. It attempts to compile (and optionally execute) a source fragment with
  the given flags, defines, includes and libraries, and returns a callable probe. A
  failed compile or link is the result "not found". The host answers for the request
  as it was passed; the attempt is logged in the context; the keyword \<^verbatim>\<open>lib\<close> of
  the call overrides the one given at construction.
\<close>

definition check_cc :: "host \<Rightarrow> cc_kwargs \<Rightarrow> kwprobe" where
  "check_cc h kw_ext kw c d =
     (let args = (case kw of None \<Rightarrow> kw_ext | Some l \<Rightarrow> kw_ext\<lparr>lib := Some l\<rparr>) in
      (cc_works h args, c\<lparr>attempts := attempts c @ [Compile args]\<rparr>))"

text \<open>
  Modelled from the spec: \<^verbatim>\<open>check_pkg_config\<close> of waftools/checks/generic.py. It queries
  the system package database for a version-constrained package and returns a callable
  probe; an unresolved query is the result "not found".
\<close>

definition check_pkg_config :: "host \<Rightarrow> string \<Rightarrow> string \<Rightarrow> kwprobe" where
  "check_pkg_config h query uselib_store kw c d =
     (pkg_resolves h query, c\<lparr>attempts := attempts c @ [PkgConfig query uselib_store]\<rparr>)"

text \<open>
  Modelled from the spec: \<^verbatim>\<open>check_libs\<close> of waftools/checks/generic.py. It tries linking
  against each candidate library name in order until the inner probe succeeds, and
  short-circuits on the first success.
\<close>

fun check_libs :: "string list \<Rightarrow> kwprobe \<Rightarrow> probe" where
  "check_libs [] fn c d = (False, c)"
| "check_libs (l # ls) fn c d =
     (let (found, c') = fn (Some l) c d in
      if found then (True, c') else check_libs ls fn c' d)"

text \<open>
  Modelled from the spec: \<^verbatim>\<open>compose_checks\<close> of waftools/checks/generic.py. The logical
  AND of two probes: both must succeed, in order, short-circuiting on the first failure.
\<close>

definition compose_checks :: "kwprobe \<Rightarrow> kwprobe \<Rightarrow> probe" where
  "compose_checks a b c d =
     (let (found, c') = a None c d in
      if found then b None c' d else (False, c'))"

text \<open>
  Modelled from the spec: the context method \<^verbatim>\<open>dependency_satisfied\<close>, which the
  repository adds to the build context outside the sources given. It tells whether a
  dependency is already known to be satisfied.
\<close>

definition dependency_satisfied :: "ctx \<Rightarrow> string \<Rightarrow> bool" where
  "dependency_satisfied c name = (name \<in> satisfied_deps c)"

text \<open>
  Modelled from the spec: the context method \<^verbatim>\<open>mark_satisfied\<close>, likewise absent. It
  records a tag as an additional discovered fact.
\<close>

definition mark_satisfied :: "string \<Rightarrow> ctx \<Rightarrow> ctx" where
  "mark_satisfied name c = c\<lparr>satisfied_deps := insert name (satisfied_deps c)\<rparr>"

text \<open>
  Modelled from the spec: the context method \<^verbatim>\<open>add_optional_message\<close>, likewise
  absent. It attaches a diagnostic message to a dependency identifier.
\<close>

definition add_optional_message :: "string \<Rightarrow> string \<Rightarrow> ctx \<Rightarrow> ctx" where
  "add_optional_message d msg c = c\<lparr>optional_messages := (optional_messages c)(d \<mapsto> msg)\<rparr>"

text \<open>\<^verbatim>\<open>ctx.undefine(key)\<close> of the build framework: the key has no define afterwards.\<close>

definition undefine :: "string \<Rightarrow> ctx \<Rightarrow> ctx" where
  "undefine key c = c\<lparr>DEFINES := (DEFINES c)(key := None)\<rparr>"

subsection \<open>check_pthreads\<close>

definition platform_cflags :: "string \<Rightarrow> string" where
  "platform_cflags dest_os =
     (case map_of
        [(''linux'', ''-D_REENTRANT''),
         (''freebsd'', ''-D_THREAD_SAFE''),
         (''netbsd'', ''-D_THREAD_SAFE''),
         (''openbsd'', ''-D_THREAD_SAFE''),
         (''win32'', ''-DPTW32_STATIC_LIB'')] dest_os of
        None \<Rightarrow> []
      | Some f \<Rightarrow> f)"

text \<open>The loop of lines 22 to 25 over the two probes.\<close>

fun pthreads_loop :: "kwprobe list \<Rightarrow> string list \<Rightarrow> probe" where
  "pthreads_loop [] libs c d = (False, c)"
| "pthreads_loop (fn # fns) libs c d =
     (let (found, c') = check_libs libs fn c d in
      if found then (True, c') else pthreads_loop fns libs c' d)"

definition check_pthreads :: "host \<Rightarrow> probe" where
  "check_pthreads h c d =
     (let pthreads_program = load_fragment h ''pthreads.c'';
          libs = [''pthreadGC2'', ''pthread''];
          checkfn = check_cc h (cc_defaults\<lparr>fragment := pthreads_program,
                                            cflags := Some (platform_cflags (DEST_OS c))\<rparr>);
          checkfn_nocflags = check_cc h (cc_defaults\<lparr>fragment := pthreads_program\<rparr>)
      in pthreads_loop [checkfn, checkfn_nocflags] libs c d)"

subsection \<open>check_iconv\<close>



subsection \<open>check_lua\<close>

definition lua_versions :: "(string \<times> string) list" where
  "lua_versions =
     [(''51'', ''lua >= 5.1.0 lua < 5.2.0''),
      (''51deb'', ''lua5.1 >= 5.1.0''),
      (''luajit'', ''luajit >= 2.0.0''),
      (''52'', ''lua >= 5.2.0''),
      (''52deb'', ''lua5.2 >= 5.2.0'')]"

text \<open>Lines 35 to 46: the companion library's store, test header and test code.\<close>

definition quvi :: "host \<Rightarrow> ctx \<Rightarrow> string list \<times> string \<times> string" where
  "quvi h c =
     (if dependency_satisfied c ''libquvi4'' then
        ([''libquvi4''], ''#include <quvi/quvi.h>'', load_fragment h ''lua_libquvi4.c'')
      else if dependency_satisfied c ''libquvi9'' then
        ([''libquvi9''], ''#include <quvi.h>'', load_fragment h ''lua_libquvi9.c'')
      else ([], [], []))"

text \<open>Lines 61 to 63: an option that is set (a non-empty string) keeps the entries
  with that tag; an option that is None or empty keeps the list.\<close>

definition lua_candidates :: "ctx \<Rightarrow> (string \<times> string) list" where
  "lua_candidates c =
     (case LUA_VER c of
        None \<Rightarrow> lua_versions
      | Some v \<Rightarrow> if v \<noteq> [] then filter (\<lambda>lv. fst lv = v) lua_versions else lua_versions)"

text \<open>The request of lines 68 to 70 for one version tag.\<close>

definition lua_cc :: "string \<Rightarrow> string list \<Rightarrow> string \<Rightarrow> cc_kwargs" where
  "lua_cc frag quvi_lib_storage lua_version =
     cc_defaults\<lparr>fragment := frag, use := Some ([lua_version] @ quvi_lib_storage),
                 execute := Some True\<rparr>"

text \<open>The loop of lines 65 to 77.\<close>

fun lua_loop :: "host \<Rightarrow> string \<Rightarrow> string list \<Rightarrow> (string \<times> string) list \<Rightarrow> probe" where
  "lua_loop h frag quvi_lib_storage [] c d = (False, c)"
| "lua_loop h frag quvi_lib_storage ((lua_version, pkgconfig_query) # rest) c d =
     (let (found, c') =
            compose_checks
              (check_pkg_config h pkgconfig_query lua_version)
              (check_cc h (lua_cc frag quvi_lib_storage lua_version)) c d
      in if found then
           (True, add_optional_message d (''version found: '' @ lua_version)
                    (mark_satisfied lua_version c'))
         else lua_loop h frag quvi_lib_storage rest c' d)"

definition lua_fragment :: "host \<Rightarrow> ctx \<Rightarrow> string" where
  "lua_fragment h c =
     (let (quvi_lib_storage, additional_lua_test_header, additional_lua_test_code) = quvi h c in
      str_format h (load_fragment h ''lua.c'') additional_lua_test_header additional_lua_test_code)"

definition check_lua :: "host \<Rightarrow> probe" where
  "check_lua h c d =
     lua_loop h (lua_fragment h c) (fst (quvi h c)) (lua_candidates c) c d"

subsection \<open>check_oss_4front\<close>

text \<open>
  A \<^typ>\<open>char\<close> stands for the code point of a character, so a string of this theory
  is a Python string of code points below 256. Of the characters that
  \<^verbatim>\<open>str.rstrip()\<close> removes these are the ones in that range: tab to carriage return,
  the four separators 0x1C to 0x1F, the space, U+0085 (next line) and U+00A0 (no-break
  space).
\<close>

definition is_space :: "char \<Rightarrow> bool" where
  "is_space ch =
     (ch \<in> set [CHR 0x09, CHR 0x0A, CHR 0x0B, CHR 0x0C, CHR 0x0D,
                 CHR 0x1C, CHR 0x1D, CHR 0x1E, CHR 0x1F, CHR 0x20,
                 CHR 0x85, CHR 0xA0])"

definition rstrip :: "string \<Rightarrow> string" where
  "rstrip s = rev (dropWhile is_space (rev s))"

definition get_osslibdir :: "host \<Rightarrow> string" where
  "get_osslibdir h = rstrip (sh_stdout h)"

text \<open>\<^verbatim>\<open>os.path.join(a, b)\<close> on POSIX.\<close>

definition os_path_join :: "string \<Rightarrow> string \<Rightarrow> string" where
  "os_path_join a b =
     (if take 1 b = ''/'' then b
      else if a = [] then b
      else if last a = CHR ''/'' then a @ b
      else a @ ''/'' @ b)"

definition check_oss_4front :: "host \<Rightarrow> probe" where
  "check_oss_4front h c d =
     (let oss_libdir = get_osslibdir h in
      if oss_libdir = [] then
        (let defkey = define_key h d in (False, undefine defkey c))
      else
        (let soundcard_h = os_path_join oss_libdir ''include/sys/soundcard.h'';
             include_dir = os_path_join oss_libdir ''include'';
             fn = check_cc h
                    (cc_defaults\<lparr>header_name := Some soundcard_h,
                                 defines_kw := Some
                                   [''PATH_DEV_DSP='' @ [CHR 0x22] @ ''/dev/dsp'' @ [CHR 0x22],
                                    ''PATH_DEV_MIXER='' @ [CHR 0x22] @ ''/dev/mixer'' @ [CHR 0x22]],
                                 cflags := Some (''-I'' @ include_dir),
                                 fragment := load_fragment h ''oss_audio.c''\<rparr>)
         in fn None c d))"

section \<open>Notions the statements use\<close>

text \<open>The part of an ordered scan that is visited when the scan stops at the first
  element that passes: every element before it, and that element.\<close>

fun until_first :: "('a \<Rightarrow> bool) \<Rightarrow> 'a list \<Rightarrow> 'a list" where
  "until_first P [] = []"
| "until_first P (x # xs) = (if P x then [x] else x # until_first P xs)"

text \<open>The store names of the pkg-config queries in a log, in order.\<close>

fun pkg_tags :: "attempt list \<Rightarrow> string list" where
  "pkg_tags [] = []"
| "pkg_tags (PkgConfig q t # as) = t # pkg_tags as"
| "pkg_tags (Compile k # as) = pkg_tags as"

section \<open>A sample host and sample contexts\<close>

text \<open>
  A host on which only \<^verbatim>\<open>pthread\<close> without flags and the combined iconv library link,
  pkg-config knows LuaJIT and the Debian Lua 5.2, only the latter compiles, and
  \<^verbatim>\<open>/etc/oss.conf\<close> sets no library directory (the shell prints a space, a no-break
  space and a newline).
\<close>

definition sample_host :: host where
  "sample_host =
     \<lparr>load_fragment = (\<lambda>name. ''// '' @ name),
      str_format = (\<lambda>template header code. header @ template @ code),
      cc_works = (\<lambda>k. (lib k = Some ''pthread'' \<and> cflags k = None) \<or>
                        lib k = Some ''dl iconv'' \<or> use k = Some [''52deb'']),
      pkg_resolves = (\<lambda>q. q = ''luajit >= 2.0.0'' \<or> q = ''lua5.2 >= 5.2.0''),
      sh_stdout = [CHR 0x20, CHR 0xA0, CHR 0x0A],
      define_key = (\<lambda>d. ''HAVE_'' @ d)\<rparr>"

definition sample_ctx :: "string \<Rightarrow> string option \<Rightarrow> ctx" where
  "sample_ctx dest_os lua_ver =
     \<lparr>DEST_OS = dest_os, LIB_LIBDL = [''dl''], LUA_VER = lua_ver, satisfied_deps = {},
      optional_messages = Map.empty, DEFINES = [''HAVE_oss'' \<mapsto> ''1''], attempts = []\<rparr>"

text \<open>
  An unprivileged user (uid 1000) in a writable directory, on a system that clears both
  set-ID bits on a write; the child process prints the given version line, the network
  delivers three bytes and their digest is the given one. Beside it, a directory with a
  \<^verbatim>\<open>waf\<close> of the given mode that the user owns, and an empty one.
\<close>

definition sample_env :: "string \<Rightarrow> string \<Rightarrow> bootenv" where
  "sample_env wafver digest =
     \<lparr>check_output = (\<lambda>d argv. Inr wafver),
      urlopen_read = (\<lambda>u. Inr [1, 2, 3]),
      sha256_hexdigest = (\<lambda>p. digest),
      euid = 1000, groups = [1000], cwd_writable = True,
      create_mode = 33188, create_gid = 1000,
      write_clears = (\<lambda>f. S_ISUID OR S_ISGID),
      chmod_clears = (\<lambda>f. 0)\<rparr>"

definition sample_world :: "int \<Rightarrow> world" where
  "sample_world m =
     \<lparr>files = [''waf'' \<mapsto> \<lparr>content = [9], st_mode = m, st_uid = 1000, st_gid = 1000\<rparr>],
      stdout = [], requests = []\<rparr>"

definition empty_world :: world where
  "empty_world = \<lparr>files = Map.empty, stdout = [], requests = []\<rparr>"

section \<open>Properties of bootstrap.py\<close>

lemma pinned_version: "index1 (split_on CHR ''-'' WAFRELEASE) = Inr ''1.8.1''"
  by (simp add: WAFRELEASE_def index1_def)








text \<open>
  Two runs of the script. In an empty directory the download is written with the
  creation mode 0o100644 and ends with mode 0o100744. The user's old waf 1.7.0 of mode
  0o104755 is replaced; the write takes its set-user-ID bit away and the mode ends as
  0o100755.
\<close>

lemma bootstrap_fresh_run:
  "bootstrap (sample_env [] SHA256HASH) empty_world =
     (Exit 0,
      \<lparr>files = [''waf'' \<mapsto> \<lparr>content = [1, 2, 3], st_mode = 33252, st_uid = 1000, st_gid = 1000\<rparr>],
       stdout = [''Downloading http://ftp.waf.io/pub/release/waf-1.8.1...'', ''Checksum verified.''],
       requests = [''http://ftp.waf.io/pub/release/waf-1.8.1'']\<rparr>)"
  by (simp add: bootstrap_def version_check_def WAFRELEASE_def WAFURL_def
      sample_env_def empty_world_def download_verify_def install_def open_wb_write_def
      os_stat_def os_chmod_def may_chmod_def print_def Let_def
      S_IXUSR_def S_ISGID_def mask_eq_exp_minus_1)

lemma bootstrap_replace_run:
  "bootstrap (sample_env ''waf 1.7.0 (abc)'' SHA256HASH) (sample_world 35309) =
     (Exit 0,
      \<lparr>files = [''waf'' \<mapsto> \<lparr>content = [1, 2, 3], st_mode = 33261, st_uid = 1000, st_gid = 1000\<rparr>],
       stdout = [''Downloading http://ftp.waf.io/pub/release/waf-1.8.1...'', ''Checksum verified.''],
       requests = [''http://ftp.waf.io/pub/release/waf-1.8.1'']\<rparr>)"
  by (simp add: bootstrap_def version_check_def index1_def WAFRELEASE_def WAFURL_def
      sample_env_def sample_world_def download_verify_def install_def open_wb_write_def
      os_stat_def os_chmod_def may_write_def may_chmod_def print_def Let_def
      S_IXUSR_def S_ISUID_def S_ISGID_def mask_eq_exp_minus_1)

text \<open>
  The refusal in general: when the existing \<^verbatim>\<open>waf\<close> may not be written, a download
  with the pinned digest ends in the traceback of line 27 and no file is touched.
\<close>

lemma bootstrap_write_refused:
  assumes "version_check e w = Inr False"
    and "urlopen_read e WAFURL = Inr waf"
    and "sha256_hexdigest e waf = SHA256HASH"
    and "files w ''waf'' = Some f"
    and "\<not> may_write e f"
  shows "fst (bootstrap e w) = Traceback PermissionError \<and> files (snd (bootstrap e w)) = files w"
  using assms
  by (simp add: bootstrap_def download_verify_def install_def open_wb_write_def print_def Let_def)


text \<open>
  C2. When the script reaches the download, the download returns a payload and the
  payload's digest is not the pinned hash, the script ends with status 1, the directory
  is the one it started with, and what it printed is the download line, then the
  complaint with the computed digest and the expected one.
\<close>

theorem bootstrap_rejects_wrong_hash:
  assumes "version_check e w = Inr False"
    and "urlopen_read e WAFURL = Inr waf"
    and "sha256_hexdigest e waf \<noteq> SHA256HASH"
  shows "\<exists>w'. bootstrap e w = (Exit 1, w') \<and> files w' = files w \<and>
           stdout w' = stdout w @
             [''Downloading '' @ WAFURL @ ''...'',
              ''The checksum of the downloaded file does not match!'',
              '' - got:      '' @ sha256_hexdigest e waf,
              '' - expected: '' @ SHA256HASH,
              ''Please download and verify the file manually.'']"
  using assms
  by (auto simp add: bootstrap_def download_verify_def reject_def print_def Let_def)

theorem bootstrap_rejects_wrong_hash_witness:
  "\<exists>w'. bootstrap (sample_env ''waf 1.7.0 (abc)'' ''00'') empty_world = (Exit 1, w') \<and>
        files w' = files empty_world \<and>
        stdout w' = stdout empty_world @
             [''Downloading '' @ WAFURL @ ''...'',
              ''The checksum of the downloaded file does not match!'',
              '' - got:      '' @ sha256_hexdigest (sample_env ''waf 1.7.0 (abc)'' ''00'') [1, 2, 3],
              '' - expected: '' @ SHA256HASH,
              ''Please download and verify the file manually.'']"
  by (rule bootstrap_rejects_wrong_hash)
     (simp_all add: version_check_def SHA256HASH_def sample_env_def empty_world_def)

text \<open>
  C3. When a file \<^verbatim>\<open>waf\<close> exists, running it with \<^verbatim>\<open>--version\<close> gives output, and the
  second space-separated field of that output is the part of the pinned release name
  after the dash, the script ends with status 0, has opened no URL and has left the
  directory as it was.
\<close>

theorem bootstrap_skips_installed_version:
  assumes "''waf'' \<in> dom (files w)"
    and "check_output e (files w) [''./waf'', ''--version''] = Inr wafver"
    and "index1 (split_on CHR '' '' wafver) = index1 (split_on CHR ''-'' WAFRELEASE)"
  shows "\<exists>w'. bootstrap e w = (Exit 0, w') \<and> requests w' = requests w \<and> files w' = files w"
  using assms
  by (simp add: bootstrap_def version_check_def pinned_version print_def)

theorem bootstrap_skips_installed_version_witness:
  "\<exists>w'. bootstrap ((sample_env ''waf 1.8.1 (abc)'' ''00'')\<lparr>urlopen_read := (\<lambda>u. Inl URLError)\<rparr>)
               (sample_world 33261) = (Exit 0, w') \<and>
        requests w' = requests (sample_world 33261) \<and>
        files w' = files (sample_world 33261)"
  by (rule bootstrap_skips_installed_version [where wafver = "''waf 1.8.1 (abc)''"])
     (simp_all add: index1_def WAFRELEASE_def sample_env_def sample_world_def)

section \<open>Properties of the probes\<close>

subsection \<open>Scans that stop at the first success\<close>

lemma until_first_append:
  "until_first P (xs @ ys) = (if list_ex P xs then until_first P xs else xs @ until_first P ys)"
  by (induction xs) auto

lemma until_first_none: "\<not> list_ex P xs \<Longrightarrow> until_first P xs = xs"
  by (induction xs) auto

lemma check_libs_check_cc:
  "check_libs libs (check_cc h kw) c d =
     (list_ex (cc_works h) (map (\<lambda>l. kw\<lparr>lib := Some l\<rparr>) libs),
      c\<lparr>attempts := attempts c @
             map Compile (until_first (cc_works h) (map (\<lambda>l. kw\<lparr>lib := Some l\<rparr>) libs))\<rparr>)"
  by (induction libs arbitrary: c) (simp_all add: check_cc_def)

lemma platform_cflags_linux: "platform_cflags ''linux'' = ''-D_REENTRANT''"
  by (simp add: platform_cflags_def)

lemma platform_cflags_other:
  assumes "dest_os \<notin> {''linux'', ''freebsd'', ''netbsd'', ''openbsd'', ''win32''}"
  shows "platform_cflags dest_os = []"
  using assms by (simp add: platform_cflags_def)

subsection \<open>pthreads\<close>

text \<open>
  C4. On target OS \<^verbatim>\<open>linux\<close> the pthreads probe asks for its four combinations in the
  order (\<^verbatim>\<open>-D_REENTRANT\<close>, pthreadGC2), (\<^verbatim>\<open>-D_REENTRANT\<close>, pthread), (no flag,
  pthreadGC2), (no flag, pthread), stops at the first that compiles and links, and
  returns true exactly when one of the four does.
\<close>

theorem check_pthreads_linux:
  assumes "DEST_OS c = ''linux''"
  shows "let rq = (\<lambda>fl l. cc_defaults\<lparr>fragment := load_fragment h ''pthreads.c'',
                                        cflags := fl, lib := Some l\<rparr>);
             four = [rq (Some ''-D_REENTRANT'') ''pthreadGC2'', rq (Some ''-D_REENTRANT'') ''pthread'',
                     rq None ''pthreadGC2'', rq None ''pthread'']
         in check_pthreads h c d =
              (list_ex (cc_works h) four,
               c\<lparr>attempts := attempts c @ map Compile (until_first (cc_works h) four)\<rparr>)"
  using assms
  by (simp add: check_pthreads_def check_libs_check_cc platform_cflags_linux Let_def cc_defaults_def)

theorem check_pthreads_linux_witness:
  "check_pthreads sample_host (sample_ctx ''linux'' None) ''pthreads'' =
     (True, (sample_ctx ''linux'' None)
        \<lparr>attempts := map (\<lambda>(fl, l). Compile (cc_defaults\<lparr>fragment := ''// pthreads.c'',
                                                          cflags := fl, lib := Some l\<rparr>))
            [(Some ''-D_REENTRANT'', ''pthreadGC2''), (Some ''-D_REENTRANT'', ''pthread''),
             (None, ''pthreadGC2''), (None, ''pthread'')]\<rparr>)"
  using check_pthreads_linux [of "sample_ctx ''linux'' None" sample_host "''pthreads''"]
  by (simp add: sample_host_def sample_ctx_def cc_defaults_def Let_def)

subsection \<open>iconv\<close>



subsection \<open>Lua\<close>

lemma lua_candidate_step:
  "compose_checks (check_pkg_config h q v) (check_cc h (lua_cc frag qs v)) c d =
     (pkg_resolves h q \<and> cc_works h (lua_cc frag qs v),
      c\<lparr>attempts := attempts c @
            PkgConfig q v # (if pkg_resolves h q then [Compile (lua_cc frag qs v)] else [])\<rparr>)"
  by (simp add: compose_checks_def check_pkg_config_def check_cc_def Let_def)

lemma lua_loop_scan:
  fixes h frag qs
  defines "ok \<equiv> (\<lambda>lv. pkg_resolves h (snd lv) \<and> cc_works h (lua_cc frag qs (fst lv)))"
    and "asks \<equiv> (\<lambda>lv. PkgConfig (snd lv) (fst lv) #
                    (if pkg_resolves h (snd lv) then [Compile (lua_cc frag qs (fst lv))] else []))"
  shows "lua_loop h frag qs cands c d =
     (case find ok cands of
        None \<Rightarrow> (False, c\<lparr>attempts := attempts c @ concat (map asks (until_first ok cands))\<rparr>)
      | Some lv \<Rightarrow>
          (True, c\<lparr>attempts := attempts c @ concat (map asks (until_first ok cands)),
                   satisfied_deps := insert (fst lv) (satisfied_deps c),
                   optional_messages := (optional_messages c)(d \<mapsto> ''version found: '' @ fst lv)\<rparr>))"
proof (induction cands arbitrary: c)
  case Nil
  then show ?case by simp
next
  case (Cons lv rest)
  obtain v q where lv: "lv = (v, q)" by (cases lv)
  have a: "asks (v, q) =
      PkgConfig q v # (if pkg_resolves h q then [Compile (lua_cc frag qs v)] else [])"
    by (simp add: asks_def)
  show ?case
  proof (cases "ok (v, q)")
    case True
    then have "pkg_resolves h q \<and> cc_works h (lua_cc frag qs v)" by (simp add: ok_def)
    with True show ?thesis
      by (simp add: lv lua_candidate_step a add_optional_message_def mark_satisfied_def)
  next
    case False
    then have "\<not> (pkg_resolves h q \<and> cc_works h (lua_cc frag qs v))" by (simp add: ok_def)
    with False show ?thesis
      by (simp add: lv Cons.IH lua_candidate_step a split: option.split)
  qed
qed

lemma find_None_list_ex: "(find P xs = None) = (\<not> list_ex P xs)"
  by (induction xs) auto

lemma find_Some_list_ex: "find P xs = Some x \<Longrightarrow> list_ex P xs"
  by (induction xs) (auto split: if_splits)

lemma lua_candidates_filter:
  "lua_candidates c =
     filter (\<lambda>lv. LUA_VER c = None \<or> LUA_VER c = Some [] \<or> LUA_VER c = Some (fst lv)) lua_versions"
  by (cases "LUA_VER c") (auto simp: lua_candidates_def intro!: filter_cong)

lemma distinct_lua_tags: "distinct (map fst lua_versions)"
  by (simp add: lua_versions_def)

lemma distinct_lua_candidates: "distinct (map fst (lua_candidates c))"
  unfolding lua_candidates_filter by (intro distinct_map_filter distinct_lua_tags)

text \<open>
  C7. The Lua probe scans its candidates in the declared order: 51, 51deb, luajit, 52,
  52deb, or those of them that carry the tag given as the option; no tag occurs
  twice. A candidate matches when pkg-config resolves its query and the toolchain
  compiles and runs the fragment \<^verbatim>\<open>lua.c\<close>, formatted with the companion library's
  header and code, using the candidate's store and the companion's. The probe asks
  once for each candidate up to and including the first that matches (the query, then
  the compile if the query resolved) and for none after it, marks that candidate's
  tag satisfied and attaches the message naming it, and returns false exactly when no
  candidate matches.
\<close>

theorem check_lua_first_match:
  "let five = [(''51'', ''lua >= 5.1.0 lua < 5.2.0''),
               (''51deb'', ''lua5.1 >= 5.1.0''),
               (''luajit'', ''luajit >= 2.0.0''),
               (''52'', ''lua >= 5.2.0''),
               (''52deb'', ''lua5.2 >= 5.2.0'')];
       cands = (case LUA_VER c of
                  None \<Rightarrow> five
                | Some v \<Rightarrow> if v = [] then five else filter (\<lambda>lv. fst lv = v) five);
       companion =
         (if ''libquvi4'' \<in> satisfied_deps c then
            ([''libquvi4''], ''#include <quvi/quvi.h>'', load_fragment h ''lua_libquvi4.c'')
          else if ''libquvi9'' \<in> satisfied_deps c then
            ([''libquvi9''], ''#include <quvi.h>'', load_fragment h ''lua_libquvi9.c'')
          else ([], [], []));
       frag = str_format h (load_fragment h ''lua.c'') (fst (snd companion)) (snd (snd companion));
       rq = (\<lambda>v. \<lparr>fragment = frag, cflags = None, lib = None,
                   use = Some (v # fst companion), execute = Some True,
                   header_name = None, defines_kw = None\<rparr>);
       ok = (\<lambda>lv. pkg_resolves h (snd lv) \<and> cc_works h (rq (fst lv)));
       asks = (\<lambda>lv. PkgConfig (snd lv) (fst lv) #
                      (if pkg_resolves h (snd lv) then [Compile (rq (fst lv))] else []));
       c1 = c\<lparr>attempts := attempts c @ concat (map asks (until_first ok cands))\<rparr>
   in check_lua h c d =
        (case find ok cands of
           None \<Rightarrow> (False, c1)
         | Some lv \<Rightarrow>
             (True, c1\<lparr>satisfied_deps := insert (fst lv) (satisfied_deps c),
                       optional_messages :=
                         (optional_messages c)(d \<mapsto> ''version found: '' @ fst lv)\<rparr>)) \<and>
      distinct (map fst cands) \<and>
      fst (check_lua h c d) = list_ex ok cands"
proof -
  let ?companion =
    "(if ''libquvi4'' \<in> satisfied_deps c then
        ([''libquvi4''], ''#include <quvi/quvi.h>'', load_fragment h ''lua_libquvi4.c'')
      else if ''libquvi9'' \<in> satisfied_deps c then
        ([''libquvi9''], ''#include <quvi.h>'', load_fragment h ''lua_libquvi9.c'')
      else ([], [], []))"
  let ?frag = "str_format h (load_fragment h ''lua.c'') (fst (snd ?companion)) (snd (snd ?companion))"
  have q: "quvi h c = ?companion"
    by (simp add: quvi_def dependency_satisfied_def)
  have f: "lua_fragment h c = ?frag"
    unfolding lua_fragment_def q by (simp add: case_prod_beta)
  have r: "lua_cc ?frag (fst ?companion) v =
      \<lparr>fragment = ?frag, cflags = None, lib = None, use = Some (v # fst ?companion),
       execute = Some True, header_name = None, defines_kw = None\<rparr>" for v
    by (simp add: lua_cc_def cc_defaults_def)
  have cs: "lua_candidates c =
      (case LUA_VER c of
         None \<Rightarrow> lua_versions
       | Some v \<Rightarrow> if v = [] then lua_versions else filter (\<lambda>lv. fst lv = v) lua_versions)"
    by (simp add: lua_candidates_def split: option.split)
  have run: "check_lua h c d = lua_loop h ?frag (fst ?companion) (lua_candidates c) c d"
    unfolding check_lua_def f q ..
  have d: "distinct (map fst (lua_candidates c))"
    by (rule distinct_lua_candidates)
  have res: "fst (case find P xs of None \<Rightarrow> (False, a) | Some lv \<Rightarrow> (True, b lv)) = list_ex P xs"
    for P :: "string \<times> string \<Rightarrow> bool" and xs and a :: ctx and b
    by (auto simp: find_None_list_ex split: option.split dest: find_Some_list_ex)
  show ?thesis
    unfolding Let_def
    using d
    by (simp only: run lua_loop_scan r res cs [symmetric] lua_versions_def [symmetric])
qed

theorem check_lua_first_match_witness:
  "check_lua sample_host (sample_ctx ''linux'' None) ''lua'' =
     (True,
      (sample_ctx ''linux'' None)
        \<lparr>attempts :=
           [PkgConfig ''lua >= 5.1.0 lua < 5.2.0'' ''51'',
            PkgConfig ''lua5.1 >= 5.1.0'' ''51deb'',
            PkgConfig ''luajit >= 2.0.0'' ''luajit'',
            Compile \<lparr>fragment = ''// lua.c'', cflags = None, lib = None,
                     use = Some [''luajit''], execute = Some True,
                     header_name = None, defines_kw = None\<rparr>,
            PkgConfig ''lua >= 5.2.0'' ''52'',
            PkgConfig ''lua5.2 >= 5.2.0'' ''52deb'',
            Compile \<lparr>fragment = ''// lua.c'', cflags = None, lib = None,
                     use = Some [''52deb''], execute = Some True,
                     header_name = None, defines_kw = None\<rparr>],
         satisfied_deps := {''52deb''},
         optional_messages := [''lua'' \<mapsto> ''version found: 52deb'']\<rparr>)"
  using check_lua_first_match
          [where h = sample_host and c = "sample_ctx ''linux'' None" and d = "''lua''"]
  by (simp add: sample_host_def sample_ctx_def Let_def)

text \<open>
  C5. With the option set to \<^verbatim>\<open>52deb\<close> the only candidate is the Debian 5.2 one, and
  all the probe asks of the toolchain is the query \<^verbatim>\<open>lua5.2 >= 5.2.0\<close> and, if that
  resolves, the compile of the fragment against it, whatever else the host has.
\<close>

theorem check_lua_only_52deb:
  assumes "LUA_VER c = Some ''52deb''"
  shows "let rq = lua_cc (lua_fragment h c) (fst (quvi h c)) ''52deb'';
             found = (pkg_resolves h ''lua5.2 >= 5.2.0'' \<and> cc_works h rq);
             c1 = c\<lparr>attempts := attempts c @
                    PkgConfig ''lua5.2 >= 5.2.0'' ''52deb'' #
                      (if pkg_resolves h ''lua5.2 >= 5.2.0'' then [Compile rq] else [])\<rparr>
         in lua_candidates c = [(''52deb'', ''lua5.2 >= 5.2.0'')] \<and>
            check_lua h c d =
              (if found then
                 (True, add_optional_message d ''version found: 52deb'' (mark_satisfied ''52deb'' c1))
               else (False, c1))"
proof -
  have cands: "lua_candidates c = [(''52deb'', ''lua5.2 >= 5.2.0'')]"
    using assms by (simp add: lua_candidates_def lua_versions_def)
  show ?thesis
    by (simp add: cands check_lua_def compose_checks_def check_pkg_config_def check_cc_def Let_def)
qed

theorem check_lua_only_52deb_witness:
  "fst (check_lua sample_host (sample_ctx ''linux'' (Some ''52deb'')) ''lua'') \<and>
   pkg_tags (attempts (snd (check_lua sample_host (sample_ctx ''linux'' (Some ''52deb'')) ''lua''))) =
     [''52deb'']"
  using check_lua_only_52deb [of "sample_ctx ''linux'' (Some ''52deb'')" sample_host "''lua''"]
  by (simp add: sample_host_def sample_ctx_def cc_defaults_def Let_def lua_cc_def quvi_def
      dependency_satisfied_def add_optional_message_def mark_satisfied_def)

text \<open>
  C9, as amended. With the option set to a non-empty string that is none of the five
  tags, no candidate is left, and the probe returns false with the build context
  exactly as it was: no query, no compile, nothing recorded.
\<close>

theorem check_lua_unknown_tag:
  assumes "LUA_VER c = Some v" and "v \<noteq> []"
    and "v \<notin> {''51'', ''51deb'', ''luajit'', ''52'', ''52deb''}"
  shows "lua_candidates c = [] \<and> check_lua h c d = (False, c)"
proof -
  have cands: "lua_candidates c = []"
    using assms by (auto simp add: lua_candidates_def lua_versions_def)
  show ?thesis
    by (simp add: cands check_lua_def)
qed

theorem check_lua_unknown_tag_witness:
  "check_lua sample_host (sample_ctx ''linux'' (Some ''53'')) ''lua'' =
     (False, sample_ctx ''linux'' (Some ''53''))"
  using check_lua_unknown_tag [of "sample_ctx ''linux'' (Some ''53'')" "''53''" sample_host "''lua''"]
  by (simp add: sample_ctx_def)

text \<open>
  The empty string is none of the five tags, and with it as the option the probe
  queries all five candidates and finds the Debian 5.2 one on the sample host.
\<close>

theorem check_lua_empty_option_counterexample:
  "LUA_VER (sample_ctx ''linux'' (Some [])) = Some [] \<and>
   [] \<notin> {''51'', ''51deb'', ''luajit'', ''52'', ''52deb''} \<and>
   fst (check_lua sample_host (sample_ctx ''linux'' (Some [])) ''lua'') \<and>
   pkg_tags (attempts (snd (check_lua sample_host (sample_ctx ''linux'' (Some [])) ''lua''))) =
     [''51'', ''51deb'', ''luajit'', ''52'', ''52deb''] \<and>
   satisfied_deps (snd (check_lua sample_host (sample_ctx ''linux'' (Some [])) ''lua'')) = {''52deb''}"
  by (simp add: check_lua_def sample_host_def sample_ctx_def cc_defaults_def Let_def
      lua_candidates_def lua_versions_def lua_cc_def quvi_def dependency_satisfied_def
      add_optional_message_def mark_satisfied_def compose_checks_def check_pkg_config_def
      check_cc_def lua_fragment_def)

subsection \<open>OSS\<close>

text \<open>
  C6. When the shell's output, stripped, is empty, the OSS probe returns false, the
  dependency's define key has no define afterwards while every other field of the
  context is as before, and a second call on the resulting context returns the same
  result and the same context.
\<close>

theorem check_oss_4front_empty_libdir:
  assumes "get_osslibdir h = []"
  shows "check_oss_4front h c d = (False, c\<lparr>DEFINES := (DEFINES c)(define_key h d := None)\<rparr>) \<and>
         DEFINES (snd (check_oss_4front h c d)) (define_key h d) = None \<and>
         check_oss_4front h (snd (check_oss_4front h c d)) d = check_oss_4front h c d"
  using assms by (simp add: check_oss_4front_def undefine_def Let_def)

theorem check_oss_4front_empty_libdir_witness:
  "get_osslibdir sample_host = [] \<and>
   DEFINES (sample_ctx ''linux'' None) ''HAVE_oss'' = Some ''1'' \<and>
   check_oss_4front sample_host (sample_ctx ''linux'' None) ''oss'' =
     (False, (sample_ctx ''linux'' None)\<lparr>DEFINES := Map.empty\<rparr>)"
proof -
  have h: "get_osslibdir sample_host = []"
    by (simp add: get_osslibdir_def rstrip_def is_space_def sample_host_def)
  show ?thesis
    using h check_oss_4front_empty_libdir [OF h, of "sample_ctx ''linux'' None" "''oss''"]
    by (simp add: sample_host_def sample_ctx_def)
qed

end
